theory Spec2Isabelle
  imports Complex_Main
begin

section \<open>The double cart-pole task configuration\<close>

text \<open>
  A shallow embedding of \<^verbatim>\<open>cartpole_double_env_cfg.py\<close>. The module is declarative: each
  configuration class is a namespace of named terms, and the only code that runs is the
  two post-initialisation hooks and the camera factory.

  Conventions of the embedding:
  \<^item> a Python \<^verbatim>\<open>float\<close> literal is the real number it denotes, \<^verbatim>\<open>math.pi\<close> is \<open>pi\<close>;
  \<^item> a term class (\<^verbatim>\<open>RewTerm\<close>, \<^verbatim>\<open>DoneTerm\<close>, ...) is a record of the fields this module passes;
  \<^item> a configuration class whose attributes are terms is the association list of its
    attributes, in declaration order (the order of the class body);
  \<^item> a function of the \<^verbatim>\<open>mdp\<close> module is a function identifier: the module is not part of
    this file and the configuration only names its functions;
  \<^item> a dictionary literal is the association list of its items, a keyword argument that is
    not passed is \<open>None\<close> or the empty list.
\<close>

subsection \<open>Term classes\<close>

datatype mdp_func =
    mdp_is_alive
  | mdp_is_terminated
  | mdp_joint_pos_target_l2
  | mdp_joint_vel_l1
  | mdp_time_out
  | mdp_joint_pos_out_of_manual_limit
  | mdp_reset_joints_to_default
  | mdp_reset_joints_by_offset
  | mdp_joint_pos_rel
  | mdp_joint_vel_rel

record SceneEntityCfg =
  name :: string
  joint_names :: "string list option"

datatype param_value =
    PEntity SceneEntityCfg
  | PFloat real
  | PTuple "real \<times> real"

type_synonym params = "(string \<times> param_value) list"

record JointEffortActionCfg =
  asset_name :: string
  joint_names :: "string list"
  scale :: real

record ObservationTermCfg =
  func :: mdp_func

record ObservationGroupCfg =
  terms :: "(string \<times> ObservationTermCfg) list"
  enable_corruption :: bool
  concatenate_terms :: bool

record EventTermCfg =
  func :: mdp_func
  mode :: string
  params :: params

record RewardTermCfg =
  func :: mdp_func
  weight :: real
  params :: params

record TerminationTermCfg =
  func :: mdp_func
  params :: params
  time_out :: bool

datatype command_term = NullCommandCfg

subsection \<open>Scene entities and the camera\<close>

record ArticulationCfg =
  prim_path :: string

datatype spawner_cfg =
    DomeLightCfg "real \<times> real \<times> real" real
  | DistantLightCfg "real \<times> real \<times> real" real

record InitialStateCfg =
  rot :: "real \<times> real \<times> real \<times> real"

record AssetBaseCfg =
  prim_path :: string
  spawn :: spawner_cfg
  init_state :: "InitialStateCfg option"

record PinholeCameraCfg =
  focal_length :: real
  focus_distance :: real
  horizontal_aperture :: real
  clipping_range :: "real \<times> real"

record CameraCfg =
  prim_path :: string
  update_period :: real
  height :: int
  width :: int
  data_types :: "string list"
  colorize_semantic_segmentation :: bool
  colorize_instance_id_segmentation :: bool
  colorize_instance_segmentation :: bool
  spawn :: PinholeCameraCfg

record Camera =
  cfg :: CameraCfg

text \<open>
  The world hierarchy the camera factory writes to: a prim path carries a prim type.
\<close>

type_synonym stage = "string \<rightharpoonup> string"

text \<open>
  Modelled from the spec: \<^verbatim>\<open>prim_utils.create_prim\<close> belongs to the simulator and is not
  part of this file; the spec says a call creates one node of the given type in the
  world hierarchy.
\<close>

definition create_prim :: "string \<Rightarrow> string \<Rightarrow> stage \<Rightarrow> stage" where
  "create_prim path prim_type st = st(path \<mapsto> prim_type)"

text \<open>
  \<^verbatim>\<open>create_camera\<close>, with the stage passed through. \<^verbatim>\<open>Camera(cfg=camera_cfg)\<close> is the camera
  object holding its configuration.
\<close>

definition create_camera :: "stage \<Rightarrow> Camera \<times> stage" where
  "create_camera st =
     (let st1 = create_prim ''/World/Origin_00'' ''Xform'' st;
          st2 = create_prim ''/World/Origin_01'' ''Xform'' st1;
          camera_cfg = \<lparr>
            CameraCfg.prim_path = ''/World/Origin_.*/CameraSensor'',
            update_period = 0,
            height = 480,
            width = 640,
            data_types = [''rgb''],
            colorize_semantic_segmentation = False,
            colorize_instance_id_segmentation = False,
            colorize_instance_segmentation = False,
            CameraCfg.spawn = \<lparr>
              focal_length = 24.0, focus_distance = 400.0, horizontal_aperture = 20.955,
              clipping_range = (0.1, 100000)\<rparr>\<rparr>;
          camera = \<lparr>cfg = camera_cfg\<rparr>
      in (camera, st2))"

text \<open>
  An attribute of the scene class is an articulation, a plain asset or a sensor. The
  robot template \<^verbatim>\<open>CARTPOLE_CFG\<close> comes from another package: it is a parameter, an
  articulation configuration with a prim path and any further fields.
\<close>

datatype 'a scene_entity =
    Articulation "'a ArticulationCfg_scheme"
  | AssetBase AssetBaseCfg
  | CameraSensor CameraCfg

fun is_camera :: "'a scene_entity \<Rightarrow> bool" where
  "is_camera (CameraSensor c) = True"
| "is_camera (Articulation a) = False"
| "is_camera (AssetBase b) = False"

text \<open>\<^verbatim>\<open>cfg.replace(prim_path=p)\<close>: a copy of the configuration with that one field set.\<close>

definition replace_prim_path :: "'a ArticulationCfg_scheme \<Rightarrow> string \<Rightarrow> 'a ArticulationCfg_scheme" where
  "replace_prim_path c p = c\<lparr>ArticulationCfg.prim_path := p\<rparr>"

record 'a SceneCfg =
  num_envs :: int
  env_spacing :: real
  entities :: "(string \<times> 'a scene_entity) list"

text \<open>
  \<^verbatim>\<open>CartpoleDoubleSceneCfg(num_envs=n, env_spacing=s)\<close>. The string literal that follows the
  lights in the class body (the text of a camera configuration) is an expression
  statement: it binds no attribute.
\<close>

definition CartpoleDoubleSceneCfg ::
    "'a ArticulationCfg_scheme \<Rightarrow> int \<Rightarrow> real \<Rightarrow> 'a SceneCfg" where
  "CartpoleDoubleSceneCfg CARTPOLE_CFG n s = \<lparr>
     num_envs = n,
     env_spacing = s,
     entities = [
       (''robot'', Articulation (replace_prim_path CARTPOLE_CFG ''{ENV_REGEX_NS}/Robot'')),
       (''dome_light'', AssetBase \<lparr>
          AssetBaseCfg.prim_path = ''/World/DomeLight'',
          AssetBaseCfg.spawn = DomeLightCfg (0.9, 0.9, 0.9) 500.0,
          init_state = None\<rparr>),
       (''distant_light'', AssetBase \<lparr>
          AssetBaseCfg.prim_path = ''/World/DistantLight'',
          AssetBaseCfg.spawn = DistantLightCfg (0.9, 0.9, 0.9) 2500.0,
          init_state = Some \<lparr>rot = (0.738, 0.477, 0.477, 0.0)\<rparr>\<rparr>)]\<rparr>"

subsection \<open>MDP settings\<close>

definition CommandsCfg :: "(string \<times> command_term) list" where
  "CommandsCfg = [(''null'', NullCommandCfg)]"

definition ActionsCfg :: "(string \<times> JointEffortActionCfg) list" where
  "ActionsCfg = [
     (''joint_effort'',
      \<lparr>asset_name = ''robot'', JointEffortActionCfg.joint_names = [''RailToCart''], scale = 10.0\<rparr>)]"

text \<open>
  \<^verbatim>\<open>PolicyCfg\<close> inherits the two flags from the observation group class, which is not part
  of this file: their inherited defaults are parameters. Construction sets the fields from
  the defaults and then runs \<^verbatim>\<open>__post_init__\<close>.
\<close>

definition PolicyCfg_init :: "bool \<Rightarrow> bool \<Rightarrow> ObservationGroupCfg" where
  "PolicyCfg_init corruption_default concatenate_default = \<lparr>
     terms = [
       (''joint_pos_rel'', \<lparr>ObservationTermCfg.func = mdp_joint_pos_rel\<rparr>),
       (''joint_vel_rel'', \<lparr>ObservationTermCfg.func = mdp_joint_vel_rel\<rparr>)],
     enable_corruption = corruption_default,
     concatenate_terms = concatenate_default\<rparr>"

definition PolicyCfg_post_init :: "ObservationGroupCfg \<Rightarrow> ObservationGroupCfg" where
  "PolicyCfg_post_init self = self\<lparr>enable_corruption := False, concatenate_terms := True\<rparr>"

definition PolicyCfg :: "bool \<Rightarrow> bool \<Rightarrow> ObservationGroupCfg" where
  "PolicyCfg corruption_default concatenate_default =
     PolicyCfg_post_init (PolicyCfg_init corruption_default concatenate_default)"

definition ObservationsCfg :: "bool \<Rightarrow> bool \<Rightarrow> (string \<times> ObservationGroupCfg) list" where
  "ObservationsCfg corruption_default concatenate_default =
     [(''policy'', PolicyCfg corruption_default concatenate_default)]"

definition EventCfg :: "(string \<times> EventTermCfg) list" where
  "EventCfg = [
     (''reset_to_default'', \<lparr>
        EventTermCfg.func = mdp_reset_joints_to_default,
        mode = ''reset'',
        EventTermCfg.params = [
          (''asset_cfg'', PEntity \<lparr>name = ''robot'', SceneEntityCfg.joint_names = None\<rparr>)]\<rparr>),
     (''reset_pole_position'', \<lparr>
        EventTermCfg.func = mdp_reset_joints_by_offset,
        mode = ''reset'',
        EventTermCfg.params = [
          (''asset_cfg'',
           PEntity \<lparr>name = ''robot'', SceneEntityCfg.joint_names = Some [''CartToPole'']\<rparr>),
          (''position_range'', PTuple (pi, pi)),
          (''velocity_range'', PTuple (0.0, 0.0))]\<rparr>),
     (''reset_pole_double_position'', \<lparr>
        EventTermCfg.func = mdp_reset_joints_by_offset,
        mode = ''reset'',
        EventTermCfg.params = [
          (''asset_cfg'',
           PEntity \<lparr>name = ''robot'', SceneEntityCfg.joint_names = Some [''PoleToDouble'']\<rparr>),
          (''position_range'', PTuple (0.0, 0.0)),
          (''velocity_range'', PTuple (0.0, 0.0))]\<rparr>)]"

definition RewardsCfg :: "(string \<times> RewardTermCfg) list" where
  "RewardsCfg = [
     (''alive'', \<lparr>
        RewardTermCfg.func = mdp_is_alive, weight = 250.0, RewardTermCfg.params = []\<rparr>),
     (''terminating'', \<lparr>
        RewardTermCfg.func = mdp_is_terminated, weight = - 800.0, RewardTermCfg.params = []\<rparr>),
     (''pole_pos'', \<lparr>
        RewardTermCfg.func = mdp_joint_pos_target_l2,
        weight = - 30.0,
        RewardTermCfg.params = [
          (''asset_cfg'',
           PEntity \<lparr>name = ''robot'', SceneEntityCfg.joint_names = Some [''CartToPole'']\<rparr>),
          (''target'', PFloat 0.0)]\<rparr>),
     (''pole_pos_double'', \<lparr>
        RewardTermCfg.func = mdp_joint_pos_target_l2,
        weight = - 30.0,
        RewardTermCfg.params = [
          (''asset_cfg'',
           PEntity \<lparr>name = ''robot'', SceneEntityCfg.joint_names = Some [''PoleToDouble'']\<rparr>),
          (''target'', PFloat 0.0)]\<rparr>),
     (''cart_vel'', \<lparr>
        RewardTermCfg.func = mdp_joint_vel_l1,
        weight = - 10.0,
        RewardTermCfg.params = [
          (''asset_cfg'',
           PEntity \<lparr>name = ''robot'', SceneEntityCfg.joint_names = Some [''RailToCart'']\<rparr>)]\<rparr>),
     (''pole_vel'', \<lparr>
        RewardTermCfg.func = mdp_joint_vel_l1,
        weight = - 10.0,
        RewardTermCfg.params = [
          (''asset_cfg'',
           PEntity \<lparr>name = ''robot'', SceneEntityCfg.joint_names = Some [''CartToPole'']\<rparr>)]\<rparr>),
     (''cart_pos'', \<lparr>
        RewardTermCfg.func = mdp_joint_pos_target_l2,
        weight = - 5.0,
        RewardTermCfg.params = [
          (''asset_cfg'',
           PEntity \<lparr>name = ''robot'', SceneEntityCfg.joint_names = Some [''RailToCart'']\<rparr>),
          (''target'', PFloat 0.0)]\<rparr>)]"

text \<open>
  Modelled from the spec: the declaration of the termination term class is not part of
  this file, so the value of \<^verbatim>\<open>time_out\<close> of a term that does not pass it is not in the
  source. The spec gives a term a boolean is-timeout flag and flags only the time-out
  term as time-based: a term that does not pass the flag is not a time-out.
\<close>

definition DoneTerm_time_out_default :: bool where
  "DoneTerm_time_out_default = False"

definition TerminationsCfg :: "(string \<times> TerminationTermCfg) list" where
  "TerminationsCfg = [
     (''time_out'', \<lparr>
        TerminationTermCfg.func = mdp_time_out,
        TerminationTermCfg.params = [],
        time_out = True\<rparr>),
     (''cart_out_of_bounds'', \<lparr>
        TerminationTermCfg.func = mdp_joint_pos_out_of_manual_limit,
        TerminationTermCfg.params = [
          (''asset_cfg'',
           PEntity \<lparr>name = ''robot'', SceneEntityCfg.joint_names = Some [''RailToCart'']\<rparr>),
          (''bounds'', PTuple (- 1.24, 1.24))],
        time_out = DoneTerm_time_out_default\<rparr>)]"

definition CurriculumCfg :: "(string \<times> mdp_func) list" where
  "CurriculumCfg = []"

subsection \<open>Environment configuration\<close>

record ViewerCfg =
  eye :: "real \<times> real \<times> real"
  lookat :: "real \<times> real \<times> real"

record SimulationCfg =
  dt :: real
  gravity :: "real \<times> real \<times> real"
  render_interval :: int
  use_fabric :: bool

text \<open>
  The fields this module reads from its base class \<^verbatim>\<open>ManagerBasedRLEnvCfg\<close> without
  declaring them. The base class is not part of this file: its defaults are a parameter
  of the construction.
\<close>

record ManagerBasedRLEnvCfg =
  decimation :: int
  episode_length_s :: real
  viewer :: ViewerCfg
  sim :: SimulationCfg

record 'a CartpoleDoubleEnvCfg = ManagerBasedRLEnvCfg +
  scene :: "'a SceneCfg"
  observations :: "(string \<times> ObservationGroupCfg) list"
  actions :: "(string \<times> JointEffortActionCfg) list"
  events :: "(string \<times> EventTermCfg) list"
  curriculum :: "(string \<times> mdp_func) list"
  rewards :: "(string \<times> RewardTermCfg) list"
  terminations :: "(string \<times> TerminationTermCfg) list"
  commands :: "(string \<times> command_term) list"

text \<open>The field defaults of the class body, over the inherited defaults \<open>base\<close>.\<close>

definition CartpoleDoubleEnvCfg_init ::
    "ManagerBasedRLEnvCfg \<Rightarrow> 'a ArticulationCfg_scheme \<Rightarrow> bool \<Rightarrow> bool \<Rightarrow> 'a CartpoleDoubleEnvCfg" where
  "CartpoleDoubleEnvCfg_init base CARTPOLE_CFG corruption_default concatenate_default = \<lparr>
     decimation = decimation base,
     episode_length_s = episode_length_s base,
     viewer = viewer base,
     sim = sim base,
     scene = CartpoleDoubleSceneCfg CARTPOLE_CFG 4096 2.8,
     observations = ObservationsCfg corruption_default concatenate_default,
     actions = ActionsCfg,
     events = EventCfg,
     curriculum = CurriculumCfg,
     rewards = RewardsCfg,
     terminations = TerminationsCfg,
     commands = CommandsCfg\<rparr>"

text \<open>\<^verbatim>\<open>CartpoleDoubleEnvCfg.__post_init__\<close>, one update for each assignment, in its order.\<close>

definition CartpoleDoubleEnvCfg_post_init :: "'a CartpoleDoubleEnvCfg \<Rightarrow> 'a CartpoleDoubleEnvCfg" where
  "CartpoleDoubleEnvCfg_post_init self =
     (let self = self\<lparr>decimation := 1\<rparr>;
          self = self\<lparr>episode_length_s := 10\<rparr>;
          self = self\<lparr>viewer := (viewer self)\<lparr>eye := (1.4, 0.0, 2.8)\<rparr>\<rparr>;
          self = self\<lparr>viewer := (viewer self)\<lparr>lookat := (- 10.0, 0.0, 0.0)\<rparr>\<rparr>;
          self = self\<lparr>sim := (sim self)\<lparr>dt := 1 / 120\<rparr>\<rparr>;
          self = self\<lparr>sim := (sim self)\<lparr>gravity := (0.0, 0.0, - 9.8)\<rparr>\<rparr>;
          self = self\<lparr>sim := (sim self)\<lparr>render_interval := 2\<rparr>\<rparr>;
          self = self\<lparr>sim := (sim self)\<lparr>use_fabric := True\<rparr>\<rparr>
      in self)"

text \<open>Construction of the bundle: the defaults, then the hook.\<close>

definition CartpoleDoubleEnvCfg ::
    "ManagerBasedRLEnvCfg \<Rightarrow> 'a ArticulationCfg_scheme \<Rightarrow> bool \<Rightarrow> bool \<Rightarrow> 'a CartpoleDoubleEnvCfg" where
  "CartpoleDoubleEnvCfg base CARTPOLE_CFG corruption_default concatenate_default =
     CartpoleDoubleEnvCfg_post_init
       (CartpoleDoubleEnvCfg_init base CARTPOLE_CFG corruption_default concatenate_default)"

subsection \<open>The reward of a step\<close>

text \<open>
  Modelled from the spec: the reward manager that evaluates the terms and adds them up
  belongs to the host framework and is not part of this file. The spec's contract is
  reward = sum of weight times term value, over the declared terms. The value of each
  term at the current step is given by \<open>term_value\<close>, by term name.
\<close>

definition compute_reward :: "(string \<times> RewardTermCfg) list \<Rightarrow> (string \<Rightarrow> real) \<Rightarrow> real" where
  "compute_reward reward_terms term_value =
     (\<Sum>(term_name, term) \<leftarrow> reward_terms. weight term * term_value term_name)"

subsection \<open>Reading the parameters of a term\<close>

text \<open>The tuple-valued entries of a parameter dictionary, with their keys, in order.\<close>

fun tuple_params :: "params \<Rightarrow> (string \<times> real \<times> real) list" where
  "tuple_params [] = []"
| "tuple_params ((k, PTuple r) # ps) = (k, r) # tuple_params ps"
| "tuple_params ((k, PEntity e) # ps) = tuple_params ps"
| "tuple_params ((k, PFloat x) # ps) = tuple_params ps"

section \<open>Properties of the configuration\<close>

subsection \<open>The hook leaves the term configurations alone\<close>

lemma post_init_keeps:
  "scene (CartpoleDoubleEnvCfg_post_init self) = scene self"
  "observations (CartpoleDoubleEnvCfg_post_init self) = observations self"
  "actions (CartpoleDoubleEnvCfg_post_init self) = actions self"
  "events (CartpoleDoubleEnvCfg_post_init self) = events self"
  "curriculum (CartpoleDoubleEnvCfg_post_init self) = curriculum self"
  "rewards (CartpoleDoubleEnvCfg_post_init self) = rewards self"
  "terminations (CartpoleDoubleEnvCfg_post_init self) = terminations self"
  "commands (CartpoleDoubleEnvCfg_post_init self) = commands self"
  by (simp_all add: CartpoleDoubleEnvCfg_post_init_def)

lemma bundle_parts:
  "scene (CartpoleDoubleEnvCfg base C ec ct) = CartpoleDoubleSceneCfg C 4096 2.8"
  "observations (CartpoleDoubleEnvCfg base C ec ct) = ObservationsCfg ec ct"
  "actions (CartpoleDoubleEnvCfg base C ec ct) = ActionsCfg"
  "events (CartpoleDoubleEnvCfg base C ec ct) = EventCfg"
  "curriculum (CartpoleDoubleEnvCfg base C ec ct) = CurriculumCfg"
  "rewards (CartpoleDoubleEnvCfg base C ec ct) = RewardsCfg"
  "terminations (CartpoleDoubleEnvCfg base C ec ct) = TerminationsCfg"
  "commands (CartpoleDoubleEnvCfg base C ec ct) = CommandsCfg"
  by (simp_all add: CartpoleDoubleEnvCfg_def post_init_keeps CartpoleDoubleEnvCfg_init_def)

subsection \<open>Rewards\<close>

text \<open>
  Claim C1. In the constructed bundle, whatever the inherited defaults and the robot
  template, the reward terms and their weights are alive 250, terminating -800,
  pole_pos -30, pole_pos_double -30, cart_vel -10, pole_vel -10 and cart_pos -5. Every
  weight is a real number different from zero, of magnitude at most 800: weights are
  reals in this embedding, so none is infinite or undefined.
\<close>

theorem rewards_weights:
  "map (\<lambda>(term_name, term). (term_name, weight term)) (rewards (CartpoleDoubleEnvCfg base C ec ct)) =
     [(''alive'', 250), (''terminating'', - 800), (''pole_pos'', - 30), (''pole_pos_double'', - 30),
      (''cart_vel'', - 10), (''pole_vel'', - 10), (''cart_pos'', - 5)]
   \<and> list_all (\<lambda>(term_name, term). weight term \<noteq> 0 \<and> \<bar>weight term\<bar> \<le> 800)
        (rewards (CartpoleDoubleEnvCfg base C ec ct))"
  by (simp add: bundle_parts RewardsCfg_def)

text \<open>
  Claim C2, as stated: the reward configuration has exactly six terms. It has seven:
  the comments of the class body count six groups, and the group "keep pole upright"
  holds one term for each of the two poles.
\<close>

theorem rewards_six_counterexample:
  "\<not> (length RewardsCfg = 6)"
  by (simp add: RewardsCfg_def)

text \<open>
  Claim C2, amended. The reward configuration has exactly seven terms. Under the spec's
  contract the reward of a step is the sum of weight times term value over these seven
  terms; the sum over a list of terms is the sum over its parts, and a single term
  contributes its weight times its own value only.
\<close>

theorem rewards_seven_additive:
  "length RewardsCfg = 7
   \<and> map fst RewardsCfg =
       [''alive'', ''terminating'', ''pole_pos'', ''pole_pos_double'', ''cart_vel'', ''pole_vel'',
        ''cart_pos'']
   \<and> compute_reward RewardsCfg v =
       250 * v ''alive'' - 800 * v ''terminating'' - 30 * v ''pole_pos'' - 30 * v ''pole_pos_double''
       - 10 * v ''cart_vel'' - 10 * v ''pole_vel'' - 5 * v ''cart_pos''
   \<and> compute_reward (xs @ ys) v = compute_reward xs v + compute_reward ys v
   \<and> compute_reward [(n, t)] v = weight t * v n"
  by (simp add: RewardsCfg_def compute_reward_def)

subsection \<open>Actions\<close>

text \<open>
  Claim C3. The actions configuration has exactly one term, joint_effort: a joint effort
  action on the entity "robot", on the single joint "RailToCart", with scale 10.
\<close>

theorem actions_one_term:
  "length ActionsCfg = 1
   \<and> map fst ActionsCfg = [''joint_effort'']
   \<and> map_of (actions (CartpoleDoubleEnvCfg base C ec ct)) ''joint_effort'' =
       Some \<lparr>asset_name = ''robot'', JointEffortActionCfg.joint_names = [''RailToCart''], scale = 10\<rparr>"
  by (simp add: bundle_parts ActionsCfg_def)

subsection \<open>Terminations\<close>

text \<open>
  Claim C4. The terminations configuration has exactly two terms, time_out and
  cart_out_of_bounds, in this order. The first carries the time-out flag; the second
  targets joint "RailToCart" of the robot with bounds (-1.24, 1.24) and is not a
  time-out, so one declared term is a condition other than the time-out.
\<close>

theorem terminations_two_terms:
  "map fst TerminationsCfg = [''time_out'', ''cart_out_of_bounds'']
   \<and> map (\<lambda>(term_name, term). time_out term) TerminationsCfg = [True, False]
   \<and> map (\<lambda>(term_name, term). TerminationTermCfg.func term) TerminationsCfg =
       [mdp_time_out, mdp_joint_pos_out_of_manual_limit]
   \<and> map (\<lambda>(term_name, term). map_of (TerminationTermCfg.params term) ''asset_cfg'') TerminationsCfg =
       [None, Some (PEntity \<lparr>name = ''robot'', SceneEntityCfg.joint_names = Some [''RailToCart'']\<rparr>)]
   \<and> map (\<lambda>(term_name, term). map_of (TerminationTermCfg.params term) ''bounds'') TerminationsCfg =
       [None, Some (PTuple (- 1.24, 1.24))]
   \<and> list_ex (\<lambda>(term_name, term). \<not> time_out term) TerminationsCfg
   \<and> terminations (CartpoleDoubleEnvCfg base C ec ct) = TerminationsCfg"
  by (simp add: bundle_parts TerminationsCfg_def DoneTerm_time_out_default_def)

subsection \<open>Events\<close>

text \<open>
  Claim C5. The event configuration has exactly three terms, all of mode "reset", in
  this order: reset_to_default resets the joints of the robot to their defaults, with
  no joint selected (that is, all of them); reset_pole_position resets joint
  "CartToPole" with position range (pi, pi) and velocity range (0, 0);
  reset_pole_double_position resets joint "PoleToDouble" with position range (0, 0)
  and velocity range (0, 0). In every range of these terms the low end equals the
  high end.
\<close>

theorem events_three_resets:
  "map fst EventCfg = [''reset_to_default'', ''reset_pole_position'', ''reset_pole_double_position'']
   \<and> map (\<lambda>(term_name, term). mode term) EventCfg = [''reset'', ''reset'', ''reset'']
   \<and> map (\<lambda>(term_name, term). EventTermCfg.func term) EventCfg =
       [mdp_reset_joints_to_default, mdp_reset_joints_by_offset, mdp_reset_joints_by_offset]
   \<and> map (\<lambda>(term_name, term). map_of (EventTermCfg.params term) ''asset_cfg'') EventCfg =
       [Some (PEntity \<lparr>name = ''robot'', SceneEntityCfg.joint_names = None\<rparr>),
        Some (PEntity \<lparr>name = ''robot'', SceneEntityCfg.joint_names = Some [''CartToPole'']\<rparr>),
        Some (PEntity \<lparr>name = ''robot'', SceneEntityCfg.joint_names = Some [''PoleToDouble'']\<rparr>)]
   \<and> map (\<lambda>(term_name, term). tuple_params (EventTermCfg.params term)) EventCfg =
       [[],
        [(''position_range'', (pi, pi)), (''velocity_range'', (0, 0))],
        [(''position_range'', (0, 0)), (''velocity_range'', (0, 0))]]
   \<and> list_all (\<lambda>(term_name, term).
         list_all (\<lambda>(k, low, high). low = high) (tuple_params (EventTermCfg.params term))) EventCfg
   \<and> events (CartpoleDoubleEnvCfg base C ec ct) = EventCfg"
  by (simp add: bundle_parts EventCfg_def)

subsection \<open>Environment defaults\<close>

text \<open>
  Claim C6. The hook overwrites, whatever the configuration it runs on: decimation 1,
  episode length 10, simulation time step 1/120, gravity (0, 0, -9.8), render interval 2,
  the fabric flag true, viewer eye (1.4, 0, 2.8) and viewer lookat (-10, 0, 0). So the
  constructed bundle holds these values for every choice of inherited defaults.
\<close>

theorem post_init_overwrites:
  "decimation (CartpoleDoubleEnvCfg_post_init self) = 1
   \<and> episode_length_s (CartpoleDoubleEnvCfg_post_init self) = 10
   \<and> dt (sim (CartpoleDoubleEnvCfg_post_init self)) = 1 / 120
   \<and> gravity (sim (CartpoleDoubleEnvCfg_post_init self)) = (0, 0, - 9.8)
   \<and> render_interval (sim (CartpoleDoubleEnvCfg_post_init self)) = 2
   \<and> use_fabric (sim (CartpoleDoubleEnvCfg_post_init self)) = True
   \<and> eye (viewer (CartpoleDoubleEnvCfg_post_init self)) = (1.4, 0, 2.8)
   \<and> lookat (viewer (CartpoleDoubleEnvCfg_post_init self)) = (- 10, 0, 0)
   \<and> ManagerBasedRLEnvCfg.truncate (CartpoleDoubleEnvCfg base C ec ct) =
       \<lparr>decimation = 1, episode_length_s = 10,
        viewer = \<lparr>eye = (1.4, 0, 2.8), lookat = (- 10, 0, 0)\<rparr>,
        sim = \<lparr>dt = 1 / 120, gravity = (0, 0, - 9.8), render_interval = 2, use_fabric = True\<rparr>\<rparr>"
  by (simp add: CartpoleDoubleEnvCfg_def CartpoleDoubleEnvCfg_post_init_def
      CartpoleDoubleEnvCfg_init_def ManagerBasedRLEnvCfg.truncate_def)

subsection \<open>Observations\<close>

text \<open>
  Claim C7. The observations configuration has exactly one group, policy, with exactly
  two terms in this order: joint_pos_rel (relative joint position), then joint_vel_rel
  (relative joint velocity). Its concatenate flag is true and its corruption flag is
  false. Two constructions give the same group and the same observations, whatever
  defaults and robot template each of them starts from.
\<close>

theorem observations_policy_group:
  "map fst (ObservationsCfg ec ct) = [''policy'']
   \<and> map_of (observations (CartpoleDoubleEnvCfg base C ec ct)) ''policy'' = Some (PolicyCfg ec ct)
   \<and> terms (PolicyCfg ec ct) =
       [(''joint_pos_rel'', \<lparr>ObservationTermCfg.func = mdp_joint_pos_rel\<rparr>),
        (''joint_vel_rel'', \<lparr>ObservationTermCfg.func = mdp_joint_vel_rel\<rparr>)]
   \<and> concatenate_terms (PolicyCfg ec ct) = True
   \<and> enable_corruption (PolicyCfg ec ct) = False
   \<and> PolicyCfg ec ct = PolicyCfg ec' ct'
   \<and> observations (CartpoleDoubleEnvCfg base C ec ct) =
       observations (CartpoleDoubleEnvCfg base' C' ec' ct')"
  by (simp add: bundle_parts ObservationsCfg_def PolicyCfg_def PolicyCfg_post_init_def
      PolicyCfg_init_def)

subsection \<open>Scene\<close>

text \<open>
  Claim C8. In the constructed bundle the scene has num_envs 4096 and env_spacing 2.8.
  Its robot is the robot template with the prim path set to "{ENV_REGEX_NS}/Robot":
  the path starts with the placeholder "{ENV_REGEX_NS}", and every other field of the
  template is kept.
\<close>

theorem scene_replication_and_robot:
  "num_envs (scene (CartpoleDoubleEnvCfg base C ec ct)) = 4096
   \<and> env_spacing (scene (CartpoleDoubleEnvCfg base C ec ct)) = 2.8
   \<and> map_of (entities (scene (CartpoleDoubleEnvCfg base C ec ct))) ''robot'' =
       Some (Articulation (replace_prim_path C ''{ENV_REGEX_NS}/Robot''))
   \<and> ArticulationCfg.prim_path (replace_prim_path C ''{ENV_REGEX_NS}/Robot'') =
       ''{ENV_REGEX_NS}'' @ ''/Robot''
   \<and> ArticulationCfg.more (replace_prim_path C ''{ENV_REGEX_NS}/Robot'') = ArticulationCfg.more C"
  by (simp add: bundle_parts CartpoleDoubleSceneCfg_def replace_prim_path_def)

text \<open>
  Claim C9. The camera factory adds the two nodes "/World/Origin_00" and
  "/World/Origin_01", both of type Xform, to the stage and changes nothing else: from
  an empty stage the result holds exactly these two nodes. The camera it returns has a
  configuration of width 640, height 480, update period 0, data types ["rgb"] and a
  pinhole lens of focal length 24, focus distance 400, horizontal aperture 20.955 and
  clipping range (0.1, 100000).
\<close>

theorem create_camera_effect:
  "snd (create_camera st) = st(''/World/Origin_00'' \<mapsto> ''Xform'', ''/World/Origin_01'' \<mapsto> ''Xform'')
   \<and> dom (snd (create_camera Map.empty)) = {''/World/Origin_00'', ''/World/Origin_01''}
   \<and> card (dom (snd (create_camera Map.empty))) = 2
   \<and> width (cfg (fst (create_camera st))) = 640
   \<and> height (cfg (fst (create_camera st))) = 480
   \<and> update_period (cfg (fst (create_camera st))) = 0
   \<and> data_types (cfg (fst (create_camera st))) = [''rgb'']
   \<and> CameraCfg.spawn (cfg (fst (create_camera st))) =
       \<lparr>focal_length = 24, focus_distance = 400, horizontal_aperture = 20.955,
        clipping_range = (0.1, 100000)\<rparr>"
  by (simp add: create_camera_def create_prim_def Let_def insert_commute)

text \<open>
  Claim C10. The scene configuration declares exactly the entities robot, dome_light
  and distant_light, none of which is a camera; the scene of every constructed bundle
  is this one, so no bundle holds a camera.
\<close>

theorem scene_has_no_camera:
  "map fst (entities (CartpoleDoubleSceneCfg C n s)) = [''robot'', ''dome_light'', ''distant_light'']
   \<and> map (\<lambda>(entity_name, entity). is_camera entity) (entities (CartpoleDoubleSceneCfg C n s)) =
       [False, False, False]
   \<and> filter (\<lambda>(entity_name, entity). is_camera entity)
        (entities (scene (CartpoleDoubleEnvCfg base C ec ct))) = []
   \<and> map fst (entities (scene (CartpoleDoubleEnvCfg base C ec ct))) =
       [''robot'', ''dome_light'', ''distant_light'']"
  by (simp add: bundle_parts CartpoleDoubleSceneCfg_def)

end
